theory Spec2Isabelle
  imports Complex_Main
begin

section \<open>Data model\<close>

text \<open>
  The script \<^verbatim>\<open>scripts/portainer-automation.py\<close> reads JSON objects returned by the
  Portainer API. Each kind of object is a record holding the keys the script reads.
  A key read with \<^verbatim>\<open>d['K']\<close> is a plain field; a key read with \<^verbatim>\<open>d.get('K')\<close> is an
  optional field (\<open>None\<close> when the key is absent).
\<close>

record endpoint =
  ep_Id :: int
  ep_Name :: string
  ep_Type :: "int option"

record stack =
  stack_Id :: int
  stack_Name :: string
  stack_EndpointId :: "int option"

text \<open>
  \<^verbatim>\<open>svc['Spec'].get('Mode', {})\<close> is a dictionary. The script only asks whether it has
  the key \<^verbatim>\<open>'Replicated'\<close>; \<open>Replicated r\<close> is a dictionary with that key, \<open>r\<close> being
  \<^verbatim>\<open>mode['Replicated'].get('Replicas')\<close>, and \<open>Global\<close> is any dictionary without it.
  Replica and task counts are counts (unsigned in the Docker Engine API), hence \<open>nat\<close>.
  \<open>svc_RunningTasks\<close> is \<^verbatim>\<open>svc.get('ServiceStatus', {}).get('RunningTasks')\<close>.
\<close>

datatype mode = Replicated "nat option" | Global

record service =
  svc_Name :: string
  svc_Mode :: mode
  svc_RunningTasks :: "nat option"

type_synonym env_var = "string \<times> string"

text \<open>
  Exceptions. \<open>HTTPError\<close> is what \<^verbatim>\<open>response.raise_for_status()\<close> raises;
  \<open>ConnectionError\<close> stands for every other \<^verbatim>\<open>requests.exceptions.RequestException\<close>,
  raised when a request gets no response. The two \<^verbatim>\<open>ValueError\<close>s of
  \<^verbatim>\<open>get_endpoint_id\<close> are \<open>EndpointNotFound n\<close> (\<^verbatim>\<open>Endpoint 'n' not found\<close>) and
  \<open>NoValidEndpoint\<close> (\<^verbatim>\<open>No valid endpoint found\<close>). \<open>EOFError\<close> is what \<^verbatim>\<open>input()\<close>
  raises at the end of the standard input.
\<close>

datatype request_exception = HTTPError | ConnectionError

datatype exn = Request request_exception | EndpointNotFound string | NoValidEndpoint | EOFError

fun is_ValueError :: "exn \<Rightarrow> bool" where
  "is_ValueError (Request e) = False"
| "is_ValueError (EndpointNotFound n) = True"
| "is_ValueError NoValidEndpoint = True"
| "is_ValueError EOFError = False"

fun is_HTTPError :: "exn \<Rightarrow> bool" where
  "is_HTTPError (Request HTTPError) = True"
| "is_HTTPError e = False"

type_synonym 'a result = "exn + 'a"

section \<open>The outside world and the program state\<close>

text \<open>
  The calls of client methods and of \<^verbatim>\<open>time.sleep\<close>, with their arguments, in the
  order in which they happen.
\<close>

datatype call =
    Authenticate string string
  | Get_endpoints
  | Get_swarm_id int
  | List_stacks
  | Deploy_stack string string int "env_var list"
  | Update_stack int string int "env_var list" bool
  | Delete_stack int int
  | Get_stack_services int string
  | Validate_deployment int string int
  | Sleep int

text \<open>
  What comes back from a request: nothing (the request raises), or a response with its
  status code and the JSON value of its body.
\<close>

datatype 'a response = NoResponse | Response nat 'a

text \<open>
  Everything the script gets from outside: the file system; the line typed at the
  confirmation prompt, \<open>None\<close> at the end of the standard input; what comes back from
  each request of the remote API, for the service query depending on the time of the
  query; and the time each call of a client method spends in its request, depending on
  the time at which it starts.
\<close>

record world =
  files :: "string \<Rightarrow> string option"
  stdin_line :: "string option"
  auth_resp :: "string \<Rightarrow> string \<Rightarrow> string option response"
  endpoints_resp :: "endpoint list response"
  swarm_resp :: "int \<Rightarrow> string option response"
  stacks_resp :: "stack list response"
  create_resp :: "int \<Rightarrow> string \<Rightarrow> string \<Rightarrow> string \<Rightarrow> env_var list \<Rightarrow> stack response"
  update_resp :: "int \<Rightarrow> int \<Rightarrow> string \<Rightarrow> env_var list \<Rightarrow> bool \<Rightarrow> stack response"
  delete_resp :: "int \<Rightarrow> int \<Rightarrow> unit response"
  services_resp :: "int \<Rightarrow> int \<Rightarrow> string \<Rightarrow> service list response"
  latency :: "call \<Rightarrow> int \<Rightarrow> nat"

text \<open>
  The state is the clock that \<^verbatim>\<open>time.time()\<close> reads, in whole time units, and the trace
  of calls so far. The clock is advanced by \<^verbatim>\<open>time.sleep\<close> and by every request, which
  blocks for the time that the world gives.
\<close>

record state =
  now :: int
  trace :: "call list"

type_synonym 'a io = "state \<Rightarrow> 'a result \<times> state"

definition called :: "call \<Rightarrow> state \<Rightarrow> state" where
  "called c st = st\<lparr>trace := trace st @ [c]\<rparr>"

definition elapse :: "world \<Rightarrow> call \<Rightarrow> state \<Rightarrow> state" where
  "elapse w c st = st\<lparr>now := now st + int (latency w c (now st))\<rparr>"

definition request :: "world \<Rightarrow> call \<Rightarrow> state \<Rightarrow> state" where
  "request w c st = elapse w c (called c st)"

definition sleep :: "int \<Rightarrow> state \<Rightarrow> state" where
  "sleep d st = st\<lparr>now := now st + d, trace := trace st @ [Sleep d]\<rparr>"

text \<open>
  The lines that end every client method: the request, which raises when there is no
  response; \<^verbatim>\<open>response.raise_for_status()\<close>, which raises \<^verbatim>\<open>HTTPError\<close> exactly for the
  status codes from 400 to 599; and \<^verbatim>\<open>response.json()\<close>, on a body that is JSON of the
  expected shape.
\<close>

definition receive :: "'a response \<Rightarrow> 'a result" where
  "receive r =
     (case r of
        NoResponse \<Rightarrow> Inl (Request ConnectionError)
      | Response status_code body \<Rightarrow>
          if 400 \<le> status_code \<and> status_code < 600 then Inl (Request HTTPError)
          else Inr body)"

section \<open>The client\<close>

text \<open>\<^verbatim>\<open>d.get(key, default)\<close>, for the value \<open>v\<close> of the key in \<open>d\<close>, if any.\<close>

definition get_default :: "'a option \<Rightarrow> 'a \<Rightarrow> 'a" where
  "get_default v d = (case v of None \<Rightarrow> d | Some x \<Rightarrow> x)"


definition get_endpoints :: "world \<Rightarrow> endpoint list io" where
  "get_endpoints w st = (receive (endpoints_resp w), request w Get_endpoints st)"

text \<open>The loop of lines 106 to 108: the first endpoint with the given name.\<close>

fun find_named :: "endpoint list \<Rightarrow> string \<Rightarrow> int option" where
  "find_named [] endpoint_name = None"
| "find_named (ep # eps) endpoint_name =
     (if ep_Name ep = endpoint_name then Some (ep_Id ep) else find_named eps endpoint_name)"

text \<open>The loop of lines 112 to 114: the first endpoint whose type is in \<^verbatim>\<open>[1, 2]\<close>.\<close>

fun find_docker_or_swarm :: "endpoint list \<Rightarrow> int option" where
  "find_docker_or_swarm [] = None"
| "find_docker_or_swarm (ep # eps) =
     (if ep_Type ep \<in> {Some 1, Some 2} then Some (ep_Id ep) else find_docker_or_swarm eps)"

definition first_valid :: "endpoint list \<Rightarrow> int result" where
  "first_valid endpoints =
     (case find_docker_or_swarm endpoints of
        Some i \<Rightarrow> Inr i
      | None \<Rightarrow> Inl NoValidEndpoint)"

text \<open>
  Lines 105 to 116. \<^verbatim>\<open>if endpoint_name:\<close> is Python truthiness: it holds when the name
  is neither \<^verbatim>\<open>None\<close> nor the empty string.
\<close>

definition select_endpoint :: "endpoint list \<Rightarrow> string option \<Rightarrow> int result" where
  "select_endpoint endpoints endpoint_name =
     (case endpoint_name of
        None \<Rightarrow> first_valid endpoints
      | Some n \<Rightarrow>
          if n \<noteq> [] then
            (case find_named endpoints n of
               Some i \<Rightarrow> Inr i
             | None \<Rightarrow> Inl (EndpointNotFound n))
          else first_valid endpoints)"

definition get_endpoint_id :: "world \<Rightarrow> string option \<Rightarrow> int io" where
  "get_endpoint_id w endpoint_name st =
     (case get_endpoints w st of
        (Inl e, st1) \<Rightarrow> (Inl e, st1)
      | (Inr endpoints, st1) \<Rightarrow> (select_endpoint endpoints endpoint_name, st1))"

definition get_swarm_id :: "world \<Rightarrow> int \<Rightarrow> string io" where
  "get_swarm_id w endpoint_id st =
     (case receive (swarm_resp w endpoint_id) of
        Inl e \<Rightarrow> (Inl e, request w (Get_swarm_id endpoint_id) st)
      | Inr i \<Rightarrow> (Inr (get_default i []), request w (Get_swarm_id endpoint_id) st))"

definition list_stacks :: "world \<Rightarrow> stack list io" where
  "list_stacks w st = (receive (stacks_resp w), request w List_stacks st)"

text \<open>
  \<^verbatim>\<open>deploy_stack\<close> asks for the swarm id first and posts the stack only when it got one.
  The callers pass a list for \<^verbatim>\<open>env_vars\<close>, on which \<^verbatim>\<open>env_vars or []\<close> is the identity.
\<close>

definition deploy_stack :: "world \<Rightarrow> string \<Rightarrow> string \<Rightarrow> int \<Rightarrow> env_var list \<Rightarrow> stack io" where
  "deploy_stack w name compose_content endpoint_id env_vars st =
     (case get_swarm_id w endpoint_id (called (Deploy_stack name compose_content endpoint_id env_vars) st) of
        (Inl e, st1) \<Rightarrow> (Inl e, st1)
      | (Inr swarm_id, st1) \<Rightarrow>
          (receive (create_resp w endpoint_id name compose_content swarm_id env_vars),
           elapse w (Deploy_stack name compose_content endpoint_id env_vars) st1))"

definition update_stack :: "world \<Rightarrow> int \<Rightarrow> string \<Rightarrow> int \<Rightarrow> env_var list \<Rightarrow> bool \<Rightarrow> stack io" where
  "update_stack w stack_id compose_content endpoint_id env_vars prune st =
     (receive (update_resp w stack_id endpoint_id compose_content env_vars prune),
      request w (Update_stack stack_id compose_content endpoint_id env_vars prune) st)"

definition delete_stack :: "world \<Rightarrow> int \<Rightarrow> int \<Rightarrow> bool io" where
  "delete_stack w stack_id endpoint_id st =
     (case receive (delete_resp w stack_id endpoint_id) of
        Inl e \<Rightarrow> (Inl e, request w (Delete_stack stack_id endpoint_id) st)
      | Inr u \<Rightarrow> (Inr True, request w (Delete_stack stack_id endpoint_id) st))"

text \<open>
  The services are those at the time the query is sent; the clock has moved on when the
  method returns.
\<close>

definition get_stack_services :: "world \<Rightarrow> int \<Rightarrow> string \<Rightarrow> service list io" where
  "get_stack_services w endpoint_id stack_name st =
     (receive (services_resp w (now st) endpoint_id stack_name),
      request w (Get_stack_services endpoint_id stack_name) st)"

subsection \<open>Health validation\<close>

text \<open>
  The body of the loop over the services, lines 294 to 312, as a function of the flag
  \<^verbatim>\<open>all_healthy\<close> before the service is looked at, giving the flag after it.
\<close>

definition check_service :: "bool \<Rightarrow> service \<Rightarrow> bool" where
  "check_service all_healthy svc =
     (case svc_Mode svc of
        Replicated r \<Rightarrow>
          (let desired = get_default r 0;
               running = get_default (svc_RunningTasks svc) 0
           in if running < desired then False else all_healthy)
      | Global \<Rightarrow>
          (let running = get_default (svc_RunningTasks svc) 0
           in if running = 0 then False else all_healthy))"

text \<open>Lines 289 to 312: the flag starts as true and goes through the services in order.\<close>

fun check_services :: "bool \<Rightarrow> service list \<Rightarrow> bool" where
  "check_services all_healthy [] = all_healthy"
| "check_services all_healthy (svc # services) =
     check_services (check_service all_healthy svc) services"

definition all_healthy :: "service list \<Rightarrow> bool" where
  "all_healthy services = check_services True services"

text \<open>
  The \<^verbatim>\<open>while\<close> loop of lines 281 to 318; \<open>start_time\<close> is the clock when
  \<^verbatim>\<open>validate_deployment\<close> was entered.
\<close>

function validate_loop :: "world \<Rightarrow> int \<Rightarrow> string \<Rightarrow> int \<Rightarrow> int \<Rightarrow> bool io" where
  "validate_loop w endpoint_id stack_name timeout start_time st =
     (if now st - start_time < timeout then
        (case get_stack_services w endpoint_id stack_name st of
           (Inl e, st1) \<Rightarrow> (Inl e, st1)
         | (Inr services, st1) \<Rightarrow>
             if services = [] then
               validate_loop w endpoint_id stack_name timeout start_time (sleep 5 st1)
             else if all_healthy services then (Inr True, st1)
             else validate_loop w endpoint_id stack_name timeout start_time (sleep 5 st1))
      else (Inr False, st))"
  by pat_completeness auto
termination
  by (relation "measure (\<lambda>(w, endpoint_id, stack_name, timeout, start_time, st).
                  nat (timeout - (now st - start_time)))")
     (auto simp: get_stack_services_def sleep_def request_def elapse_def called_def)

definition validate_deployment :: "world \<Rightarrow> int \<Rightarrow> string \<Rightarrow> int \<Rightarrow> bool io" where
  "validate_deployment w endpoint_id stack_name timeout st =
     validate_loop w endpoint_id stack_name timeout (now st)
       (called (Validate_deployment endpoint_id stack_name timeout) st)"

section \<open>The commands\<close>

datatype command = List | Deploy | Delete

text \<open>The \<^verbatim>\<open>argparse\<close> namespace; \<open>arg_env\<close> is \<^verbatim>\<open>None\<close> when no \<^verbatim>\<open>--env\<close> was given.\<close>

record args =
  arg_command :: "command option"
  arg_user :: string
  arg_password :: string
  arg_endpoint :: "string option"
  arg_stack_name :: string
  arg_compose_file :: string
  arg_env :: "string list option"
  arg_no_validate :: bool
  arg_yes :: bool

text \<open>\<^verbatim>\<open>key, value = env.split('=', 1)\<close>, for a string that has an equals sign.\<close>

definition split_eq :: "string \<Rightarrow> env_var" where
  "split_eq s = (takeWhile (\<lambda>c. c \<noteq> CHR ''='') s, tl (dropWhile (\<lambda>c. c \<noteq> CHR ''='') s))"

fun parse_env_loop :: "string list \<Rightarrow> env_var list \<Rightarrow> env_var list" where
  "parse_env_loop [] env_vars = env_vars"
| "parse_env_loop (e # es) env_vars =
     parse_env_loop es (if CHR ''='' \<in> set e then env_vars @ [split_eq e] else env_vars)"

definition parse_env :: "string list option \<Rightarrow> env_var list" where
  "parse_env envs = (case envs of None \<Rightarrow> [] | Some es \<Rightarrow> parse_env_loop es [])"

text \<open>The loop of lines 372 to 375: the first stack with the name on the endpoint.\<close>

fun find_existing :: "stack list \<Rightarrow> string \<Rightarrow> int \<Rightarrow> stack option" where
  "find_existing [] name endpoint_id = None"
| "find_existing (s # stacks) name endpoint_id =
     (if stack_Name s = name \<and> stack_EndpointId s = Some endpoint_id then Some s
      else find_existing stacks name endpoint_id)"

text \<open>
  The handler of lines 404 to 412 returns 1 on an \<^verbatim>\<open>HTTPError\<close>; any other exception
  goes on to the caller.
\<close>

definition except_HTTPError :: "exn \<Rightarrow> int io" where
  "except_HTTPError e st = (if is_HTTPError e then (Inr 1, st) else (Inl e, st))"

text \<open>
  Lines 378 to 395: the update of the existing stack, or the creation of a new one.
  \<^verbatim>\<open>update_stack\<close> is called without \<^verbatim>\<open>prune\<close>, whose default is \<^verbatim>\<open>True\<close>.
  \<^verbatim>\<open>if existing_stack:\<close> holds for every stack found, a dictionary with a name.
\<close>

definition mutate :: "world \<Rightarrow> args \<Rightarrow> string \<Rightarrow> env_var list \<Rightarrow> int \<Rightarrow> stack option \<Rightarrow> stack io" where
  "mutate w a compose_content env_vars endpoint_id existing_stack st =
     (case existing_stack of
        Some s \<Rightarrow> update_stack w (stack_Id s) compose_content endpoint_id env_vars True st
      | None \<Rightarrow> deploy_stack w (arg_stack_name a) compose_content endpoint_id env_vars st)"

text \<open>
  The \<^verbatim>\<open>try\<close> block of lines 377 to 402 with its handler. \<^verbatim>\<open>validate_deployment\<close> is
  called without \<^verbatim>\<open>timeout\<close>, whose default is 120.
\<close>

definition deploy_try :: "world \<Rightarrow> args \<Rightarrow> string \<Rightarrow> env_var list \<Rightarrow> int \<Rightarrow> stack option \<Rightarrow> int io" where
  "deploy_try w a compose_content env_vars endpoint_id existing_stack st =
     (case mutate w a compose_content env_vars endpoint_id existing_stack st of
        (Inl e, st1) \<Rightarrow> except_HTTPError e st1
      | (Inr result, st1) \<Rightarrow>
          if \<not> arg_no_validate a then
            (case validate_deployment w endpoint_id (arg_stack_name a) 120 st1 of
               (Inl e, st2) \<Rightarrow> except_HTTPError e st2
             | (Inr ok, st2) \<Rightarrow> if \<not> ok then (Inr 1, st2) else (Inr 0, st2))
          else (Inr 0, st1))"

definition cmd_deploy :: "world \<Rightarrow> args \<Rightarrow> int io" where
  "cmd_deploy w a st =
     (case files w (arg_compose_file a) of
        None \<Rightarrow> (Inr 1, st)
      | Some compose_content \<Rightarrow>
          (let env_vars = parse_env (arg_env a) in
           case get_endpoint_id w (arg_endpoint a) st of
             (Inl e, st1) \<Rightarrow> if is_ValueError e then (Inr 1, st1) else (Inl e, st1)
           | (Inr endpoint_id, st1) \<Rightarrow>
               (case list_stacks w st1 of
                  (Inl e, st2) \<Rightarrow> (Inl e, st2)
                | (Inr stacks, st2) \<Rightarrow>
                    deploy_try w a compose_content env_vars endpoint_id
                      (find_existing stacks (arg_stack_name a) endpoint_id) st2)))"

text \<open>The loop of lines 420 and 421: the first stack with the name.\<close>

fun find_stack_named :: "stack list \<Rightarrow> string \<Rightarrow> stack option" where
  "find_stack_named [] name = None"
| "find_stack_named (s # stacks) name =
     (if stack_Name s = name then Some s else find_stack_named stacks name)"

text \<open>
  \<^verbatim>\<open>args.yes or input(...).lower() == 'y'\<close>. With \<^verbatim>\<open>--yes\<close> nothing is read. Otherwise
  \<^verbatim>\<open>input\<close> raises \<^verbatim>\<open>EOFError\<close> at the end of the standard input, and the test holds
  when the line typed is \<^verbatim>\<open>y\<close> or \<^verbatim>\<open>Y\<close>.
\<close>

definition confirm :: "world \<Rightarrow> args \<Rightarrow> bool result" where
  "confirm w a =
     (if arg_yes a then Inr True
      else (case stdin_line w of
              None \<Rightarrow> Inl EOFError
            | Some line \<Rightarrow> Inr (line = ''y'' \<or> line = ''Y'')))"

text \<open>No exception is caught in \<^verbatim>\<open>cmd_delete\<close>.\<close>

definition cmd_delete :: "world \<Rightarrow> args \<Rightarrow> int io" where
  "cmd_delete w a st =
     (case get_endpoint_id w (arg_endpoint a) st of
        (Inl e, st1) \<Rightarrow> (Inl e, st1)
      | (Inr endpoint_id, st1) \<Rightarrow>
          (case list_stacks w st1 of
             (Inl e, st2) \<Rightarrow> (Inl e, st2)
           | (Inr stacks, st2) \<Rightarrow>
               (case find_stack_named stacks (arg_stack_name a) of
                  Some s \<Rightarrow>
                    (case confirm w a of
                       Inl e \<Rightarrow> (Inl e, st2)
                     | Inr yes \<Rightarrow>
                         if yes then
                           (case delete_stack w (stack_Id s) endpoint_id st2 of
                              (Inl e, st3) \<Rightarrow> (Inl e, st3)
                            | (Inr ok, st3) \<Rightarrow> (Inr 0, st3))
                         else (Inr 0, st2))
                | None \<Rightarrow> (Inr 1, st2))))"



text \<open>
  \<^verbatim>\<open>sys.exit(main())\<close>: the status of the process is the number returned, and 1 when
  an exception was not caught.
\<close>

definition exit_status :: "int result \<Rightarrow> int" where
  "exit_status r = (case r of Inl e \<Rightarrow> 1 | Inr n \<Rightarrow> n)"

section \<open>The health condition in the words of the specification\<close>

text \<open>
  A replicated service is healthy when its observed running-task count is at least its
  configured replica count; any other service is healthy when its observed running-task
  count is greater than 0.
\<close>

definition observed :: "service \<Rightarrow> nat" where
  "observed svc = get_default (svc_RunningTasks svc) 0"

definition healthy :: "service \<Rightarrow> bool" where
  "healthy svc =
     (case svc_Mode svc of
        Replicated r \<Rightarrow> observed svc \<ge> get_default r 0
      | Global \<Rightarrow> observed svc > 0)"

section \<open>Observations on traces\<close>

text \<open>The calls that change a stack, and the calls made by the validation.\<close>

fun is_mutation :: "call \<Rightarrow> bool" where
  "is_mutation (Deploy_stack n c e v) = True"
| "is_mutation (Update_stack i c e v p) = True"
| "is_mutation (Delete_stack i e) = True"
| "is_mutation c = False"


text \<open>\<open>k\<close> rounds of one service query followed by a sleep of 5.\<close>

definition polls :: "int \<Rightarrow> string \<Rightarrow> nat \<Rightarrow> call list" where
  "polls endpoint_id stack_name k =
     concat (replicate k [Get_stack_services endpoint_id stack_name, Sleep 5])"

section \<open>Example worlds\<close>

definition prod :: endpoint where
  "prod = \<lparr>ep_Id = 1, ep_Name = ''prod'', ep_Type = Some 2\<rparr>"

definition app_on :: "int \<Rightarrow> int \<Rightarrow> stack" where
  "app_on i e = \<lparr>stack_Id = i, stack_Name = ''app'', stack_EndpointId = Some e\<rparr>"

definition web :: "nat \<Rightarrow> nat \<Rightarrow> service" where
  "web desired running =
     \<lparr>svc_Name = ''app_web'', svc_Mode = Replicated (Some desired), svc_RunningTasks = Some running\<rparr>"

definition agent :: "nat \<Rightarrow> service" where
  "agent running = \<lparr>svc_Name = ''app_agent'', svc_Mode = Global, svc_RunningTasks = Some running\<rparr>"

text \<open>
  A server that answers every request at once with status 200, with the given endpoints
  and stacks, and with the given services of the stack at each time. The line typed at
  the prompt is \<^verbatim>\<open>n\<close>.
\<close>

definition mock :: "endpoint list \<Rightarrow> stack list \<Rightarrow> (int \<Rightarrow> service list) \<Rightarrow> world" where
  "mock endpoints stacks services =
     \<lparr>files = (\<lambda>p. if p = ''docker-compose.yml'' then Some ''version:1'' else None),
      stdin_line = Some ''n'',
      auth_resp = (\<lambda>u p. Response 200 (Some ''jwt'')),
      endpoints_resp = Response 200 endpoints,
      swarm_resp = (\<lambda>e. Response 200 (Some ''swarm'')),
      stacks_resp = Response 200 stacks,
      create_resp =
        (\<lambda>e n c s v. Response 200 \<lparr>stack_Id = 1, stack_Name = n, stack_EndpointId = Some e\<rparr>),
      update_resp =
        (\<lambda>i e c v p. Response 200 \<lparr>stack_Id = i, stack_Name = ''app'', stack_EndpointId = Some e\<rparr>),
      delete_resp = (\<lambda>i e. Response 200 ()),
      services_resp = (\<lambda>t e n. Response 200 (services t)),
      latency = (\<lambda>c t. 0)\<rparr>"

definition app_args :: "command \<Rightarrow> args" where
  "app_args c =
     \<lparr>arg_command = Some c, arg_user = ''admin'', arg_password = ''secret'',
      arg_endpoint = None, arg_stack_name = ''app'',
      arg_compose_file = ''docker-compose.yml'', arg_env = Some [''DEBUG=false'', ''plain''],
      arg_no_validate = False, arg_yes = False\<rparr>"

definition st0 :: state where
  "st0 = \<lparr>now = 0, trace = []\<rparr>"

definition edge :: endpoint where
  "edge = \<lparr>ep_Id = 2, ep_Name = ''edge'', ep_Type = Some 1\<rparr>"

definition healthy_services :: "service list" where
  "healthy_services = [web 2 2, agent 1]"

definition starting_services :: "service list" where
  "starting_services = [web 2 1, agent 1]"

text \<open>No stack yet; the stack \<open>app\<close> running; \<open>app\<close> never getting its second replica.\<close>

definition fresh_world :: world where
  "fresh_world = mock [prod] [] (\<lambda>t. healthy_services)"

definition running_world :: world where
  "running_world = mock [prod] [app_on 7 1] (\<lambda>t. healthy_services)"

definition stuck_world :: world where
  "stuck_world = mock [prod] [app_on 7 1] (\<lambda>t. starting_services)"

text \<open>Two endpoints, each with a stack \<open>app\<close>; the one of \<open>edge\<close> comes first in the list.\<close>

definition two_endpoint_world :: world where
  "two_endpoint_world = mock [prod, edge] [app_on 7 2, app_on 8 1] (\<lambda>t. healthy_services)"

text \<open>
  Worlds that fail: wrong credentials (status 401); no endpoint at all; a server that
  answers every update with status 500, one that answers every creation with status 409,
  and one that cannot tell the swarm id (status 503).
\<close>

definition locked_world :: world where
  "locked_world = running_world\<lparr>auth_resp := (\<lambda>u p. Response 401 None)\<rparr>"

definition no_endpoint_world :: world where
  "no_endpoint_world = mock [] [] (\<lambda>t. healthy_services)"

definition rejecting_world :: world where
  "rejecting_world =
     running_world\<lparr>update_resp := (\<lambda>i e c v p. Response 500 (app_on i e))\<rparr>"

definition full_world :: world where
  "full_world = fresh_world\<lparr>create_resp := (\<lambda>e n c s v. Response 409 (app_on 0 e))\<rparr>"

definition swarmless_world :: world where
  "swarmless_world = fresh_world\<lparr>swarm_resp := (\<lambda>e. Response 503 None)\<rparr>"

text \<open>
  A server that answers every update with status 302, which is neither a success status
  nor one on which \<^verbatim>\<open>raise_for_status\<close> raises.
\<close>

definition redirecting_world :: world where
  "redirecting_world =
     running_world\<lparr>update_resp := (\<lambda>i e c v p. Response 302 (app_on i e))\<rparr>"

text \<open>
  The stack never getting its second replica, on a server that takes 2 time units for
  every request, and on one that takes 6.
\<close>

definition slow_world :: world where
  "slow_world = stuck_world\<lparr>latency := (\<lambda>c t. 2)\<rparr>"

definition slower_world :: world where
  "slower_world = stuck_world\<lparr>latency := (\<lambda>c t. 6)\<rparr>"

text \<open>The standard input closed.\<close>

definition closed_stdin_world :: world where
  "closed_stdin_world = two_endpoint_world\<lparr>stdin_line := None\<rparr>"

text \<open>An endpoint of a kind that is neither Docker nor Swarm, alone on its server.\<close>

definition kube :: endpoint where
  "kube = \<lparr>ep_Id = 3, ep_Name = ''kube'', ep_Type = Some 5\<rparr>"

definition unsupported_world :: world where
  "unsupported_world = mock [kube] [] (\<lambda>t. healthy_services)"

section \<open>Unfolding the examples\<close>

lemmas world_defs = mock_def running_world_def fresh_world_def stuck_world_def
  two_endpoint_world_def locked_world_def no_endpoint_world_def rejecting_world_def
  full_world_def swarmless_world_def redirecting_world_def slow_world_def slower_world_def
  closed_stdin_world_def unsupported_world_def prod_def edge_def kube_def app_on_def
  app_args_def st0_def

lemmas client_defs = mutate_def update_stack_def deploy_stack_def get_swarm_id_def
  receive_def request_def elapse_def called_def select_endpoint_def first_valid_def
  parse_env_def split_eq_def

section \<open>Endpoint resolution\<close>

lemma find_named_find:
  "find_named endpoints n = map_option ep_Id (find (\<lambda>ep. ep_Name ep = n) endpoints)"
  by (induction endpoints) auto

lemma find_docker_or_swarm_find:
  "find_docker_or_swarm endpoints =
     map_option ep_Id (find (\<lambda>ep. ep_Type ep = Some 1 \<or> ep_Type ep = Some 2) endpoints)"
  by (induction endpoints) auto

lemma get_endpoint_id_ok:
  "receive (endpoints_resp w) = Inr endpoints \<Longrightarrow>
   get_endpoint_id w endpoint_name st = (select_endpoint endpoints endpoint_name, request w Get_endpoints st)"
  by (simp add: get_endpoint_id_def get_endpoints_def receive_def)


text \<open>
  Claim C5, as amended. For every endpoint list and every non-empty requested name:
  when no endpoint has exactly that name, \<^verbatim>\<open>get_endpoint_id\<close> raises the not-found
  error and selects no default; when some endpoint has it, the identifier of the first
  such endpoint is returned. The empty name is handled as no name.
\<close>

theorem named_endpoint_resolution:
  assumes "receive (endpoints_resp w) = Inr endpoints" and "n \<noteq> []"
  shows "fst (get_endpoint_id w (Some n) st) =
           (case find (\<lambda>ep. ep_Name ep = n) endpoints of
              None \<Rightarrow> Inl (EndpointNotFound n)
            | Some ep \<Rightarrow> Inr (ep_Id ep)) \<and>
         (n \<notin> ep_Name ` set endpoints \<longrightarrow>
            fst (get_endpoint_id w (Some n) st) = Inl (EndpointNotFound n)) \<and>
         get_endpoint_id w (Some []) st = get_endpoint_id w None st"
proof -
  have 1: "fst (get_endpoint_id w (Some n) st) =
           (case find (\<lambda>ep. ep_Name ep = n) endpoints of
              None \<Rightarrow> Inl (EndpointNotFound n)
            | Some ep \<Rightarrow> Inr (ep_Id ep))"
    using assms
    by (simp add: get_endpoint_id_ok select_endpoint_def find_named_find split: option.splits)
  have 2: "find (\<lambda>ep. ep_Name ep = n) endpoints = None" if "n \<notin> ep_Name ` set endpoints"
    using that by (auto simp: find_None_iff)
  have 3: "get_endpoint_id w (Some []) st = get_endpoint_id w None st"
    by (simp add: get_endpoint_id_def select_endpoint_def split: prod.splits sum.splits)
  from 1 2 3 show ?thesis by simp
qed

theorem named_endpoint_resolution_witness:
  "fst (get_endpoint_id two_endpoint_world (Some ''edge'') st0) = Inr 2 \<and>
   fst (get_endpoint_id two_endpoint_world (Some ''staging'') st0) = Inl (EndpointNotFound ''staging'') \<and>
   get_endpoint_id two_endpoint_world (Some '''') st0 = get_endpoint_id two_endpoint_world None st0"
  using named_endpoint_resolution [of two_endpoint_world "[prod, edge]" "''edge''" st0]
        named_endpoint_resolution [of two_endpoint_world "[prod, edge]" "''staging''" st0]
  by (simp add: world_defs receive_def)

text \<open>
  Claim C5 as stated fails for the empty name: it is the name of no endpoint, and
  \<^verbatim>\<open>get_endpoint_id\<close> answers with the default endpoint instead of raising.
\<close>

theorem empty_name_counterexample:
  "endpoints_resp fresh_world = Response 200 [prod] \<and> ep_Name prod \<noteq> '''' \<and>
   fst (get_endpoint_id fresh_world (Some '''') st0) = Inr 1"
  by (simp add: get_endpoint_id_def get_endpoints_def receive_def fresh_world_def
        mock_def select_endpoint_def first_valid_def prod_def)

text \<open>
  Claim C6. When no endpoint name is given, \<^verbatim>\<open>get_endpoint_id\<close> returns the identifier of
  the first endpoint whose type is 1 or 2, and raises the none-available error when the
  list is empty or has no endpoint of those types.
\<close>

theorem default_endpoint_resolution:
  assumes "receive (endpoints_resp w) = Inr endpoints"
  shows "fst (get_endpoint_id w None st) =
           (case find (\<lambda>ep. ep_Type ep = Some 1 \<or> ep_Type ep = Some 2) endpoints of
              None \<Rightarrow> Inl NoValidEndpoint
            | Some ep \<Rightarrow> Inr (ep_Id ep)) \<and>
         ((\<forall>ep \<in> set endpoints. ep_Type ep \<noteq> Some 1 \<and> ep_Type ep \<noteq> Some 2) \<longrightarrow>
            fst (get_endpoint_id w None st) = Inl NoValidEndpoint)"
proof -
  have 1: "fst (get_endpoint_id w None st) =
           (case find (\<lambda>ep. ep_Type ep = Some 1 \<or> ep_Type ep = Some 2) endpoints of
              None \<Rightarrow> Inl NoValidEndpoint
            | Some ep \<Rightarrow> Inr (ep_Id ep))"
    using assms
    by (simp add: get_endpoint_id_ok select_endpoint_def first_valid_def
          find_docker_or_swarm_find split: option.splits)
  have "find (\<lambda>ep. ep_Type ep = Some 1 \<or> ep_Type ep = Some 2) endpoints = None"
    if "\<forall>ep \<in> set endpoints. ep_Type ep \<noteq> Some 1 \<and> ep_Type ep \<noteq> Some 2"
    using that by (simp add: find_None_iff)
  with 1 show ?thesis by simp
qed

theorem default_endpoint_resolution_witness:
  "fst (get_endpoint_id two_endpoint_world None st0) = Inr 1 \<and>
   fst (get_endpoint_id no_endpoint_world None st0) = Inl NoValidEndpoint \<and>
   fst (get_endpoint_id unsupported_world None st0) = Inl NoValidEndpoint"
  using default_endpoint_resolution [of two_endpoint_world "[prod, edge]" st0]
        default_endpoint_resolution [of no_endpoint_world "[]" st0]
        default_endpoint_resolution [of unsupported_world "[kube]" st0]
  by (simp add: world_defs receive_def)

section \<open>Health of the services of one poll\<close>

lemma check_service_iff: "check_service flag svc = (flag \<and> healthy svc)"
  by (auto simp: check_service_def healthy_def observed_def Let_def split: mode.splits)

lemma check_services_iff: "check_services flag services = (flag \<and> list_all healthy services)"
  by (induction services arbitrary: flag) (auto simp: check_service_iff)

lemma all_healthy_iff: "all_healthy services = list_all healthy services"
  by (simp add: all_healthy_def check_services_iff)

text \<open>
  Claim C2. Within one poll, a replicated service keeps the flag \<^verbatim>\<open>all_healthy\<close> exactly
  when its running-task count is at least its replica count, any other service exactly
  when its running-task count is greater than 0, and the flag after the loop is the
  conjunction over all services of the poll. On a non-empty poll made before the timeout
  the flag decides: \<^verbatim>\<open>validate_deployment\<close> returns true when it holds, and sleeps and
  polls again when it does not.
\<close>

theorem health_classification:
  "(svc_Mode svc = Replicated r \<longrightarrow> (check_service True svc \<longleftrightarrow> get_default r 0 \<le> observed svc)) \<and>
   (svc_Mode svc = Global \<longrightarrow> (check_service True svc \<longleftrightarrow> 0 < observed svc)) \<and>
   (all_healthy services \<longleftrightarrow> (\<forall>svc \<in> set services. check_service True svc)) \<and>
   (now st - start_time < timeout \<and> services \<noteq> [] \<and>
    receive (services_resp w (now st) endpoint_id stack_name) = Inr services \<longrightarrow>
      validate_loop w endpoint_id stack_name timeout start_time st =
        (if all_healthy services
         then (Inr True, request w (Get_stack_services endpoint_id stack_name) st)
         else validate_loop w endpoint_id stack_name timeout start_time
                (sleep 5 (request w (Get_stack_services endpoint_id stack_name) st))))"
proof -
  have "validate_loop w endpoint_id stack_name timeout start_time st =
        (if all_healthy services
         then (Inr True, request w (Get_stack_services endpoint_id stack_name) st)
         else validate_loop w endpoint_id stack_name timeout start_time
                (sleep 5 (request w (Get_stack_services endpoint_id stack_name) st)))"
    if "now st - start_time < timeout" "services \<noteq> []"
       "receive (services_resp w (now st) endpoint_id stack_name) = Inr services"
    using that
    by (subst validate_loop.simps) (simp add: get_stack_services_def)
  then show ?thesis
    by (simp add: check_service_iff all_healthy_iff healthy_def list_all_iff)
qed

theorem health_classification_witness:
  "check_service True (web 2 2) \<and> \<not> check_service True (web 3 2) \<and>
   check_service True (agent 1) \<and> \<not> check_service True (agent 0) \<and>
   all_healthy [web 2 3, agent 1] \<and> \<not> all_healthy [web 2 3, agent 0] \<and>
   validate_loop running_world 1 ''app'' 120 0 st0 =
     (Inr True, \<lparr>now = 0, trace = [Get_stack_services 1 ''app'']\<rparr>)"
proof -
  have 1: "check_service True (web 2 2) \<and> \<not> check_service True (web 3 2) \<and>
     check_service True (agent 1) \<and> \<not> check_service True (agent 0) \<and>
     all_healthy [web 2 3, agent 1] \<and> \<not> all_healthy [web 2 3, agent 0]"
    using health_classification [of "web 2 2" "Some 2" "[web 2 3, agent 1]"]
          health_classification [of "web 3 2" "Some 3" "[web 2 3, agent 0]"]
          health_classification [of "agent 1" None "[]"]
          health_classification [of "agent 0" None "[]"]
          health_classification [of "web 2 3" "Some 2" "[]"]
    by (simp add: web_def agent_def observed_def get_default_def)
  have 2: "all_healthy healthy_services"
    using health_classification [of "web 2 2" "Some 2" healthy_services]
          health_classification [of "agent 1" None "[]"]
    by (simp add: healthy_services_def web_def agent_def observed_def get_default_def)
  have 3: "validate_loop running_world 1 ''app'' 120 0 st0 =
     (Inr True, \<lparr>now = 0, trace = [Get_stack_services 1 ''app'']\<rparr>)"
    using health_classification [where services = healthy_services and st = st0
            and start_time = 0 and timeout = 120 and w = running_world and endpoint_id = 1
            and stack_name = "''app''"] 2
    by (simp add: world_defs receive_def request_def elapse_def called_def healthy_services_def)
  from 1 3 show ?thesis by simp
qed

text \<open>
  Claim C9. A replicated service without a configured replica count has desired count 0:
  it leaves the flag \<^verbatim>\<open>all_healthy\<close> as it is whatever its running-task count, and a
  poll of such a service alone with zero running tasks is healthy.
\<close>

theorem missing_replicas_healthy:
  "check_service flag \<lparr>svc_Name = name, svc_Mode = Replicated None, svc_RunningTasks = running\<rparr> = flag \<and>
   all_healthy [\<lparr>svc_Name = name, svc_Mode = Replicated None, svc_RunningTasks = Some 0\<rparr>]"
  by (simp add: all_healthy_def check_service_def get_default_def)

section \<open>The polling loop\<close>

lemma poll_again:
  assumes "now st - start < timeout"
    and "receive (services_resp w (now st) e n) = Inr services"
    and "services = [] \<or> \<not> all_healthy services"
  shows "validate_loop w e n timeout start st =
           validate_loop w e n timeout start (sleep 5 (request w (Get_stack_services e n) st))"
  using assms
  by (subst validate_loop.simps) (auto simp: get_stack_services_def)

lemma polls_Suc:
  "polls e n (Suc k) = Get_stack_services e n # Sleep 5 # polls e n k"
  by (simp add: polls_def)

lemma now_after_poll:
  "now (sleep 5 (request w c st)) = now st + int (latency w c (now st)) + 5"
  by (simp add: sleep_def request_def elapse_def called_def)

lemma trace_after_poll:
  "trace (sleep 5 (request w c st)) = trace st @ [c, Sleep 5]"
  by (simp add: sleep_def request_def elapse_def called_def)

lemma validate_loop_never:
  assumes "\<forall>t \<ge> now st. \<exists>services. receive (services_resp w t e n) = Inr services \<and>
                 (services = [] \<or> \<not> all_healthy services)"
  shows "\<exists>k st'. validate_loop w e n timeout start st = (Inr False, st') \<and>
           trace st' = trace st @ polls e n k \<and>
           k \<le> nat ((timeout - (now st - start) + 4) div 5) \<and>
           (now st - start < timeout \<longrightarrow> 1 \<le> k) \<and>
           now st + 5 * int k \<le> now st' \<and>
           timeout \<le> now st' - start"
  using assms
proof (induction "nat (timeout - (now st - start))" arbitrary: st rule: less_induct)
  case less
  show ?case
  proof (cases "now st - start < timeout")
    case False
    then have "validate_loop w e n timeout start st = (Inr False, st)"
      by (subst validate_loop.simps) simp
    moreover have "trace st = trace st @ polls e n 0"
      by (simp add: polls_def)
    ultimately show ?thesis
      using False by (intro exI [of _ 0] exI [of _ st]) simp
  next
    case lt: True
    let ?G = "Get_stack_services e n"
    let ?st' = "sleep 5 (request w ?G st)"
    let ?L = "int (latency w ?G (now st))"
    from less.prems obtain services
      where s: "receive (services_resp w (now st) e n) = Inr services"
        and bad: "services = [] \<or> \<not> all_healthy services"
      by (metis order_refl)
    have step: "validate_loop w e n timeout start st = validate_loop w e n timeout start ?st'"
      using lt s bad by (rule poll_again)
    have now': "now ?st' = now st + ?L + 5"
      by (rule now_after_poll)
    have smaller: "nat (timeout - (now ?st' - start)) < nat (timeout - (now st - start))"
      using lt by (simp add: now')
    have later: "\<forall>t \<ge> now ?st'. \<exists>services. receive (services_resp w t e n) = Inr services \<and>
                 (services = [] \<or> \<not> all_healthy services)"
      using less.prems by (simp add: now')
    from less.hyps [OF smaller later] obtain k st''
      where r: "validate_loop w e n timeout start ?st' = (Inr False, st'')"
        and t: "trace st'' = trace ?st' @ polls e n k"
        and b: "k \<le> nat ((timeout - (now ?st' - start) + 4) div 5)"
        and n: "now ?st' + 5 * int k \<le> now st''"
        and e: "timeout \<le> now st'' - start"
      by blast
    have d1: "(timeout - (now ?st' - start) + 4) div 5 \<le> (timeout - (now st - start) - 1) div 5"
      unfolding now' by (rule zdiv_mono1) simp_all
    have d2: "(timeout - (now st - start) - 1) div 5 = (timeout - (now st - start) + 4) div 5 - 1"
      by simp
    have d3: "1 \<le> (timeout - (now st - start) + 4) div 5"
      using lt by simp
    have bound: "Suc k \<le> nat ((timeout - (now st - start) + 4) div 5)"
      using b d1 d2 d3 by linarith
    have tr: "trace st'' = trace st @ polls e n (Suc k)"
      by (simp add: t trace_after_poll polls_Suc)
    have adv: "now st + 5 * int (Suc k) \<le> now st''"
      using n by (simp add: now')
    show ?thesis
      using step r tr bound adv e
      by (intro exI [of _ "Suc k"] exI [of _ st'']) simp
  qed
qed

lemma validate_loop_never_at_once:
  assumes "\<forall>t. latency w (Get_stack_services e n) t = 0"
    and "\<forall>t \<ge> now st. \<exists>services. receive (services_resp w t e n) = Inr services \<and>
                 (services = [] \<or> \<not> all_healthy services)"
    and "k = nat ((timeout - (now st - start) + 4) div 5)"
  shows "validate_loop w e n timeout start st =
           (Inr False, st\<lparr>now := now st + 5 * int k, trace := trace st @ polls e n k\<rparr>)"
  using assms(2,3)
proof (induction k arbitrary: st)
  case 0
  then have "\<not> now st - start < timeout" by linarith
  then show ?case by (subst validate_loop.simps) (simp add: polls_def)
next
  case (Suc k)
  let ?G = "Get_stack_services e n"
  let ?st' = "sleep 5 (request w ?G st)"
  from Suc.prems(2) have lt: "now st - start < timeout" by linarith
  from Suc.prems(1) obtain services
    where s: "receive (services_resp w (now st) e n) = Inr services"
      and bad: "services = [] \<or> \<not> all_healthy services"
    by (metis order_refl)
  have now': "now ?st' = now st + 5"
    using assms(1) by (simp add: now_after_poll)
  have step: "validate_loop w e n timeout start st = validate_loop w e n timeout start ?st'"
    using lt s bad by (rule poll_again)
  have later: "\<forall>t \<ge> now ?st'. \<exists>services. receive (services_resp w t e n) = Inr services \<and>
                 (services = [] \<or> \<not> all_healthy services)"
    using Suc.prems(1) by (simp add: now')
  have k: "k = nat ((timeout - (now ?st' - start) + 4) div 5)"
    using Suc.prems(2) by (simp add: now')
  have st': "?st' = st\<lparr>now := now st + 5, trace := trace st @ [?G, Sleep 5]\<rparr>"
    using assms(1) by (simp add: sleep_def request_def elapse_def called_def)
  show ?case
    unfolding step Suc.IH [OF later k]
    by (simp add: st' polls_Suc)
qed

lemma validate_deployment_never:
  assumes "\<forall>t. latency w (Get_stack_services e n) t = 0"
    and "\<forall>t \<ge> now st. \<exists>services. receive (services_resp w t e n) = Inr services \<and>
                 (services = [] \<or> \<not> all_healthy services)"
  shows "validate_deployment w e n timeout st =
           (Inr False,
            st\<lparr>now := now st + 5 * int (nat ((timeout + 4) div 5)),
               trace := trace st @ Validate_deployment e n timeout # polls e n (nat ((timeout + 4) div 5))\<rparr>)"
proof -
  let ?st = "called (Validate_deployment e n timeout) st"
  have k: "nat ((timeout + 4) div 5) = nat ((timeout - (now ?st - now st) + 4) div 5)"
    by (simp add: request_def elapse_def called_def)
  have H: "\<forall>t \<ge> now ?st. \<exists>services. receive (services_resp w t e n) = Inr services \<and>
                 (services = [] \<or> \<not> all_healthy services)"
    using assms(2) by (simp add: request_def elapse_def called_def)
  show ?thesis
    unfolding validate_deployment_def validate_loop_never_at_once [OF assms(1) H k]
    by (simp add: request_def elapse_def called_def)
qed

lemma validate_deployment_never_bounds:
  assumes "0 < timeout"
    and "\<forall>t \<ge> now st. \<exists>services. receive (services_resp w t e n) = Inr services \<and>
                 (services = [] \<or> \<not> all_healthy services)"
  shows "\<exists>k st'. validate_deployment w e n timeout st = (Inr False, st') \<and>
           trace st' = trace st @ Validate_deployment e n timeout # polls e n k \<and>
           1 \<le> k \<and> k \<le> nat ((timeout + 4) div 5) \<and>
           now st + 5 * int k \<le> now st' \<and> timeout \<le> now st' - now st"
proof -
  let ?st = "called (Validate_deployment e n timeout) st"
  have H: "\<forall>t \<ge> now ?st. \<exists>services. receive (services_resp w t e n) = Inr services \<and>
                 (services = [] \<or> \<not> all_healthy services)"
    using assms(2) by (simp add: request_def elapse_def called_def)
  from validate_loop_never [OF H, of timeout "now st"] obtain k st'
    where "validate_loop w e n timeout (now st) ?st = (Inr False, st')"
      and "trace st' = trace ?st @ polls e n k"
      and "k \<le> nat ((timeout - (now ?st - now st) + 4) div 5)"
      and "now ?st - now st < timeout \<longrightarrow> 1 \<le> k"
      and "now ?st + 5 * int k \<le> now st'"
      and "timeout \<le> now st' - now st"
    by blast
  with assms(1) show ?thesis
    by (intro exI [of _ k] exI [of _ st']) (simp add: validate_deployment_def request_def elapse_def called_def)
qed

lemma validate_deployment_healthy:
  assumes "0 < timeout"
    and "receive (services_resp w (now st) e n) = Inr services"
    and "services \<noteq> []"
    and "all_healthy services"
  shows "validate_deployment w e n timeout st =
           (Inr True,
            st\<lparr>now := now st + int (latency w (Get_stack_services e n) (now st)),
               trace := trace st @ [Validate_deployment e n timeout, Get_stack_services e n]\<rparr>)"
  using assms unfolding validate_deployment_def
  by (subst validate_loop.simps)
     (simp add: get_stack_services_def request_def elapse_def called_def)

lemma validate_loop_trace:
  "\<exists>cs. trace (snd (validate_loop w e n timeout start st)) = trace st @ cs \<and>
        set cs \<subseteq> {Get_stack_services e n, Sleep 5}"
proof (induction w e n timeout start st rule: validate_loop.induct)
  case (1 w e n timeout start st)
  let ?st1 = "request w (Get_stack_services e n) st"
  show ?case
  proof (cases "now st - start < timeout")
    case False
    then show ?thesis by (subst validate_loop.simps) simp
  next
    case lt: True
    show ?thesis
    proof (cases "receive (services_resp w (now st) e n)")
      case (Inl x)
      with lt show ?thesis
        by (subst validate_loop.simps) (simp add: get_stack_services_def request_def elapse_def called_def)
    next
      case (Inr services)
      show ?thesis
      proof (cases "services \<noteq> [] \<and> all_healthy services")
        case True
        with lt Inr show ?thesis
          by (subst validate_loop.simps) (simp add: get_stack_services_def request_def elapse_def called_def)
      next
        case False
        have gs: "get_stack_services w e n st = (Inr services, ?st1)"
          using Inr by (simp add: get_stack_services_def)
        have step: "validate_loop w e n timeout start st =
                    validate_loop w e n timeout start (sleep 5 ?st1)"
          using lt gs False by (subst validate_loop.simps) auto
        have "\<exists>cs. trace (snd (validate_loop w e n timeout start (sleep 5 ?st1))) = trace (sleep 5 ?st1) @ cs
                 \<and> set cs \<subseteq> {Get_stack_services e n, Sleep 5}"
        proof (cases "services = []")
          case True
          show ?thesis by (rule "1.IH"(1) [OF lt gs [symmetric] refl True])
        next
          case ne: False
          with False have "\<not> all_healthy services" by simp
          then show ?thesis by (rule "1.IH"(2) [OF lt gs [symmetric] refl ne])
        qed
        then obtain cs where
          cs: "trace (snd (validate_loop w e n timeout start (sleep 5 ?st1))) = trace (sleep 5 ?st1) @ cs"
          and sub: "set cs \<subseteq> {Get_stack_services e n, Sleep 5}"
          by blast
        show ?thesis
          unfolding step cs using sub
          by (simp add: sleep_def request_def elapse_def called_def)
      qed
    qed
  qed
qed

lemma validate_deployment_trace:
  "\<exists>cs. trace (snd (validate_deployment w e n timeout st)) = trace st @ Validate_deployment e n timeout # cs \<and>
        set cs \<subseteq> {Get_stack_services e n, Sleep 5}"
  using validate_loop_trace [of w e n timeout "now st" "called (Validate_deployment e n timeout) st"]
  by (auto simp: validate_deployment_def request_def elapse_def called_def)

lemma validate_deployment_mutations:
  "filter is_mutation (trace (snd (validate_deployment w e n timeout st))) = filter is_mutation (trace st)"
proof -
  obtain cs where cs: "trace (snd (validate_deployment w e n timeout st)) = trace st @ Validate_deployment e n timeout # cs"
    and sub: "set cs \<subseteq> {Get_stack_services e n, Sleep 5}"
    using validate_deployment_trace by blast
  have "filter is_mutation cs = []"
    using sub by (auto simp: filter_empty_conv)
  then show ?thesis by (simp add: cs)
qed

lemma ceil5: "\<lceil>real_of_int t / 5\<rceil> = (t + 4) div 5"
proof -
  have "\<lceil>real_of_int t / real_of_int 5\<rceil> = - (- t div 5)"
    by (rule ceiling_divide_eq_div)
  then show ?thesis by simp
qed



text \<open>
  Claim C3, as amended. With a positive timeout, when every poll returns a service that
  does not satisfy its health condition, \<^verbatim>\<open>validate_deployment\<close> returns false after at
  least one and at most \<open>\<lceil>timeout / 5\<rceil>\<close> polls, each followed by a sleep of 5, and the
  time elapsed then is at least the timeout. When the service queries take no time, the
  polls are exactly \<open>\<lceil>timeout / 5\<rceil>\<close> and the time elapsed is less than the timeout
  plus 5.
\<close>

theorem validate_timeout:
  assumes "0 < timeout"
    and "\<forall>t \<ge> now st. \<exists>services.
           receive (services_resp w t endpoint_id stack_name) = Inr services \<and>
           (\<exists>svc \<in> set services. \<not> healthy svc)"
  shows "(\<exists>k st'. validate_deployment w endpoint_id stack_name timeout st = (Inr False, st') \<and>
            trace st' = trace st @ Validate_deployment endpoint_id stack_name timeout #
                          polls endpoint_id stack_name k \<and>
            1 \<le> k \<and> int k \<le> \<lceil>real_of_int timeout / 5\<rceil> \<and>
            now st + 5 * int k \<le> now st' \<and> timeout \<le> now st' - now st) \<and>
         ((\<forall>t. latency w (Get_stack_services endpoint_id stack_name) t = 0) \<longrightarrow>
            validate_deployment w endpoint_id stack_name timeout st =
              (Inr False,
               st\<lparr>now := now st + 5 * \<lceil>real_of_int timeout / 5\<rceil>,
                  trace := trace st @ Validate_deployment endpoint_id stack_name timeout #
                             polls endpoint_id stack_name (nat \<lceil>real_of_int timeout / 5\<rceil>)\<rparr>) \<and>
            timeout \<le> 5 * \<lceil>real_of_int timeout / 5\<rceil> \<and>
            5 * \<lceil>real_of_int timeout / 5\<rceil> < timeout + 5)"
proof -
  have H: "\<forall>t \<ge> now st. \<exists>services.
             receive (services_resp w t endpoint_id stack_name) = Inr services \<and>
             (services = [] \<or> \<not> all_healthy services)"
    using assms(2) by (auto simp: all_healthy_iff list_all_iff)
  have pos: "0 \<le> (timeout + 4) div 5" using assms(1) by simp
  have bounds: "timeout \<le> 5 * ((timeout + 4) div 5) \<and> 5 * ((timeout + 4) div 5) < timeout + 5"
    by linarith
  from validate_deployment_never_bounds [OF assms(1) H] obtain k st'
    where "validate_deployment w endpoint_id stack_name timeout st = (Inr False, st')"
      and "trace st' = trace st @ Validate_deployment endpoint_id stack_name timeout #
                          polls endpoint_id stack_name k"
      and "1 \<le> k" and "k \<le> nat ((timeout + 4) div 5)"
      and "now st + 5 * int k \<le> now st'" and "timeout \<le> now st' - now st"
    by blast
  with pos have general: "\<exists>k st'. validate_deployment w endpoint_id stack_name timeout st = (Inr False, st') \<and>
            trace st' = trace st @ Validate_deployment endpoint_id stack_name timeout #
                          polls endpoint_id stack_name k \<and>
            1 \<le> k \<and> int k \<le> \<lceil>real_of_int timeout / 5\<rceil> \<and>
            now st + 5 * int k \<le> now st' \<and> timeout \<le> now st' - now st"
    by (intro exI [of _ k] exI [of _ st']) (simp add: ceil5)
  have exact: "validate_deployment w endpoint_id stack_name timeout st =
              (Inr False,
               st\<lparr>now := now st + 5 * \<lceil>real_of_int timeout / 5\<rceil>,
                  trace := trace st @ Validate_deployment endpoint_id stack_name timeout #
                             polls endpoint_id stack_name (nat \<lceil>real_of_int timeout / 5\<rceil>)\<rparr>)"
    if "\<forall>t. latency w (Get_stack_services endpoint_id stack_name) t = 0"
    using pos by (simp add: validate_deployment_never [OF that H] ceil5)
  from general exact bounds show ?thesis
    by (simp add: ceil5)
qed

theorem validate_timeout_witness:
  "validate_deployment stuck_world 1 ''app'' 12 st0 =
     (Inr False,
      \<lparr>now = 15,
       trace = [Validate_deployment 1 ''app'' 12,
                Get_stack_services 1 ''app'', Sleep 5,
                Get_stack_services 1 ''app'', Sleep 5,
                Get_stack_services 1 ''app'', Sleep 5]\<rparr>) \<and>
   (\<exists>k st'. validate_deployment slow_world 1 ''app'' 6 st0 = (Inr False, st') \<and>
      trace st' = Validate_deployment 1 ''app'' 6 # polls 1 ''app'' k \<and>
      1 \<le> k \<and> k \<le> 2 \<and> 5 * int k \<le> now st' \<and> 6 \<le> now st')"
proof -
  have 1: "validate_deployment stuck_world 1 ''app'' 12 st0 =
     (Inr False,
      \<lparr>now = 15,
       trace = [Validate_deployment 1 ''app'' 12,
                Get_stack_services 1 ''app'', Sleep 5,
                Get_stack_services 1 ''app'', Sleep 5,
                Get_stack_services 1 ''app'', Sleep 5]\<rparr>)"
    using validate_timeout [where timeout = 12 and w = stuck_world and endpoint_id = 1
            and stack_name = "''app''" and st = st0]
    by (simp add: world_defs receive_def starting_services_def healthy_def observed_def
          get_default_def web_def agent_def polls_def numeral_3_eq_3)
  have 2: "\<exists>k st'. validate_deployment slow_world 1 ''app'' 6 st0 = (Inr False, st') \<and>
      trace st' = Validate_deployment 1 ''app'' 6 # polls 1 ''app'' k \<and>
      1 \<le> k \<and> k \<le> 2 \<and> 5 * int k \<le> now st' \<and> 6 \<le> now st'"
    using validate_timeout [where timeout = 6 and w = slow_world and endpoint_id = 1
            and stack_name = "''app''" and st = st0]
    by (simp add: world_defs receive_def starting_services_def healthy_def observed_def
          get_default_def web_def agent_def)
  from 1 2 show ?thesis by simp
qed

text \<open>
  Claim C3 as stated fails when the service queries take time. With queries of 2 time
  units and a timeout of 6 there is one poll, not two; with queries of 6 time units and a
  timeout of 12 there are two polls, not three, and the time elapsed is 22.
\<close>

theorem slow_server_counterexample:
  "receive (services_resp slow_world 0 1 ''app'') = Inr [web 2 1, agent 1] \<and> \<not> healthy (web 2 1) \<and>
   validate_deployment slow_world 1 ''app'' 6 st0 =
     (Inr False,
      \<lparr>now = 7, trace = [Validate_deployment 1 ''app'' 6, Get_stack_services 1 ''app'', Sleep 5]\<rparr>) \<and>
   \<lceil>real_of_int 6 / 5\<rceil> = (2 :: int) \<and>
   validate_deployment slower_world 1 ''app'' 12 st0 =
     (Inr False,
      \<lparr>now = 22, trace = [Validate_deployment 1 ''app'' 12,
                           Get_stack_services 1 ''app'', Sleep 5,
                           Get_stack_services 1 ''app'', Sleep 5]\<rparr>) \<and>
   \<lceil>real_of_int 12 / 5\<rceil> = (3 :: int)"
proof -
  have 1: "validate_deployment slow_world 1 ''app'' 6 st0 =
     (Inr False,
      \<lparr>now = 7, trace = [Validate_deployment 1 ''app'' 6, Get_stack_services 1 ''app'', Sleep 5]\<rparr>)"
    unfolding validate_deployment_def
    by (subst validate_loop.simps)
       (simp add: world_defs get_stack_services_def receive_def request_def elapse_def called_def
          sleep_def starting_services_def all_healthy_def check_service_def web_def agent_def
          get_default_def)
  have 2: "validate_deployment slower_world 1 ''app'' 12 st0 =
     (Inr False,
      \<lparr>now = 22, trace = [Validate_deployment 1 ''app'' 12,
                           Get_stack_services 1 ''app'', Sleep 5,
                           Get_stack_services 1 ''app'', Sleep 5]\<rparr>)"
    unfolding validate_deployment_def
    by (subst validate_loop.simps)
       (simp add: world_defs get_stack_services_def receive_def request_def elapse_def called_def
          sleep_def starting_services_def all_healthy_def check_service_def web_def agent_def
          get_default_def)
  have 3: "receive (services_resp slow_world 0 1 ''app'') = Inr [web 2 1, agent 1]"
    by (simp add: world_defs receive_def starting_services_def)
  have 4: "\<not> healthy (web 2 1)"
    by (simp add: healthy_def observed_def web_def get_default_def)
  have 5: "\<lceil>real_of_int 6 / 5\<rceil> = (2 :: int)" "\<lceil>real_of_int 12 / 5\<rceil> = (3 :: int)"
    by (simp_all add: ceil5)
  from 1 2 3 4 5 show ?thesis by simp
qed

text \<open>
  Claim C4. With a positive timeout, when the first poll returns a non-empty list of
  services that all satisfy their health condition, \<^verbatim>\<open>validate_deployment\<close> returns true
  after that one poll, without any sleep: the clock has moved by the time of the query
  only.
\<close>

theorem validate_healthy_first_poll:
  assumes "0 < timeout"
    and "receive (services_resp w (now st) endpoint_id stack_name) = Inr services"
    and "services \<noteq> []"
    and "\<forall>svc \<in> set services. healthy svc"
  shows "validate_deployment w endpoint_id stack_name timeout st =
           (Inr True,
            st\<lparr>now := now st + int (latency w (Get_stack_services endpoint_id stack_name) (now st)),
               trace := trace st @ [Validate_deployment endpoint_id stack_name timeout,
                                    Get_stack_services endpoint_id stack_name]\<rparr>)"
proof -
  have "all_healthy services"
    using assms(4) by (simp add: all_healthy_iff list_all_iff)
  with assms(1-3) show ?thesis
    by (rule validate_deployment_healthy)
qed

theorem validate_healthy_first_poll_witness:
  "validate_deployment running_world 1 ''app'' 120 st0 =
     (Inr True, \<lparr>now = 0, trace = [Validate_deployment 1 ''app'' 120, Get_stack_services 1 ''app'']\<rparr>)"
  using validate_healthy_first_poll [of 120 running_world st0 1 "''app''" healthy_services]
  by (simp add: world_defs receive_def healthy_services_def healthy_def observed_def
        get_default_def web_def agent_def)

text \<open>
  Claim C10. With a timeout of 0 or less, \<^verbatim>\<open>validate_deployment\<close> returns false at once:
  it neither queries the services nor sleeps, whatever the state of the services.
\<close>

theorem validate_nonpositive_timeout:
  "timeout \<le> 0 \<Longrightarrow>
   validate_deployment w endpoint_id stack_name timeout st =
     (Inr False, st\<lparr>trace := trace st @ [Validate_deployment endpoint_id stack_name timeout]\<rparr>)"
  unfolding validate_deployment_def
  by (subst validate_loop.simps) (simp add: request_def elapse_def called_def)

theorem validate_nonpositive_timeout_witness:
  "services_resp running_world 0 1 ''app'' = Response 200 healthy_services \<and>
   all_healthy healthy_services \<and>
   validate_deployment running_world 1 ''app'' 0 st0 =
     (Inr False, \<lparr>now = 0, trace = [Validate_deployment 1 ''app'' 0]\<rparr>)"
  using validate_nonpositive_timeout [of 0 running_world 1 "''app''" st0]
  by (simp add: world_defs healthy_services_def all_healthy_def check_service_def
        get_default_def web_def agent_def)

section \<open>Deploying\<close>

lemma find_existing_find:
  "find_existing stacks n e = find (\<lambda>s. stack_Name s = n \<and> stack_EndpointId s = Some e) stacks"
  by (induction stacks) auto

lemma list_stacks_ok:
  "receive (stacks_resp w) = Inr stacks \<Longrightarrow> list_stacks w st = (Inr stacks, request w List_stacks st)"
  by (simp add: list_stacks_def receive_def)

lemma cmd_deploy_prepared:
  assumes "files w (arg_compose_file a) = Some c"
    and "receive (endpoints_resp w) = Inr endpoints"
    and "select_endpoint endpoints (arg_endpoint a) = Inr eid"
    and "receive (stacks_resp w) = Inr stacks"
  shows "cmd_deploy w a st =
           deploy_try w a c (parse_env (arg_env a)) eid
             (find_existing stacks (arg_stack_name a) eid)
             (request w List_stacks (request w Get_endpoints st))"
  using assms by (simp add: cmd_deploy_def get_endpoint_id_ok list_stacks_ok)

lemma mutate_trace:
  "trace (snd (mutate w a c env eid existing st)) =
     trace st @ (case existing of
                   Some s \<Rightarrow> [Update_stack (stack_Id s) c eid env True]
                 | None \<Rightarrow> [Deploy_stack (arg_stack_name a) c eid env, Get_swarm_id eid])"
  by (simp add: mutate_def update_stack_def deploy_stack_def get_swarm_id_def request_def elapse_def called_def
           split: option.splits sum.splits)


lemma deploy_try_mutations:
  "filter is_mutation (trace (snd (deploy_try w a c env eid existing st))) =
     filter is_mutation (trace st) @
       [case existing of
          Some s \<Rightarrow> Update_stack (stack_Id s) c eid env True
        | None \<Rightarrow> Deploy_stack (arg_stack_name a) c eid env]"
proof -
  obtain r st1 where m: "mutate w a c env eid existing st = (r, st1)" by (cases "mutate w a c env eid existing st")
  have t1: "filter is_mutation (trace st1) = filter is_mutation (trace st) @
       [case existing of
          Some s \<Rightarrow> Update_stack (stack_Id s) c eid env True
        | None \<Rightarrow> Deploy_stack (arg_stack_name a) c eid env]"
    using mutate_trace [of w a c env eid existing st] m by (simp split: option.splits)
  obtain v st2 where v: "validate_deployment w eid (arg_stack_name a) 120 st1 = (v, st2)"
    by (cases "validate_deployment w eid (arg_stack_name a) 120 st1")
  have t2: "filter is_mutation (trace st2) = filter is_mutation (trace st1)"
    using validate_deployment_mutations [of w eid "arg_stack_name a" 120 st1] v by simp
  show ?thesis
    using m v t1 t2
    by (auto simp: deploy_try_def except_HTTPError_def split: sum.splits)
qed











text \<open>
  Claim C1. Once the compose file is read, the endpoint resolved and the stack list
  fetched, \<^verbatim>\<open>cmd_deploy\<close> makes exactly one call that changes a stack. If the list has a
  stack with the requested name on the resolved endpoint, the call is \<^verbatim>\<open>update_stack\<close>
  for the identifier of the first such stack, with pruning; otherwise it is
  \<^verbatim>\<open>deploy_stack\<close> with the requested name, the file content, the endpoint and the
  environment list.
\<close>

theorem deploy_chooses_update_or_create:
  assumes "files w (arg_compose_file a) = Some c"
    and "receive (endpoints_resp w) = Inr endpoints"
    and "select_endpoint endpoints (arg_endpoint a) = Inr eid"
    and "receive (stacks_resp w) = Inr stacks"
  shows "if \<exists>s \<in> set stacks. stack_Name s = arg_stack_name a \<and> stack_EndpointId s = Some eid
         then \<exists>s. find (\<lambda>s. stack_Name s = arg_stack_name a \<and> stack_EndpointId s = Some eid) stacks = Some s \<and>
                  filter is_mutation (trace (snd (cmd_deploy w a st))) =
                    filter is_mutation (trace st) @
                      [Update_stack (stack_Id s) c eid (parse_env (arg_env a)) True]
         else filter is_mutation (trace (snd (cmd_deploy w a st))) =
                filter is_mutation (trace st) @
                  [Deploy_stack (arg_stack_name a) c eid (parse_env (arg_env a))]"
proof -
  let ?P = "\<lambda>s. stack_Name s = arg_stack_name a \<and> stack_EndpointId s = Some eid"
  show ?thesis
  proof (cases "find ?P stacks")
    case None
    then have "\<not> (\<exists>s \<in> set stacks. ?P s)" by (simp add: find_None_iff)
    with None show ?thesis
      by (simp add: cmd_deploy_prepared [OF assms] deploy_try_mutations find_existing_find request_def elapse_def called_def)
  next
    case (Some s)
    then have "\<exists>s \<in> set stacks. ?P s" by (auto simp: find_Some_iff)
    with Some show ?thesis
      by (simp add: cmd_deploy_prepared [OF assms] deploy_try_mutations find_existing_find request_def elapse_def called_def)
  qed
qed

theorem deploy_chooses_update_or_create_witness:
  "filter is_mutation (trace (snd (cmd_deploy running_world (app_args Deploy) st0))) =
     [Update_stack 7 ''version:1'' 1 [(''DEBUG'', ''false'')] True] \<and>
   filter is_mutation (trace (snd (cmd_deploy fresh_world (app_args Deploy) st0))) =
     [Deploy_stack ''app'' ''version:1'' 1 [(''DEBUG'', ''false'')]] \<and>
   filter is_mutation (trace (snd (cmd_deploy two_endpoint_world (app_args Deploy) st0))) =
     [Update_stack 8 ''version:1'' 1 [(''DEBUG'', ''false'')] True]"
proof -
  have 1: "filter is_mutation (trace (snd (cmd_deploy running_world (app_args Deploy) st0))) =
     [Update_stack 7 ''version:1'' 1 [(''DEBUG'', ''false'')] True]"
    using deploy_chooses_update_or_create
            [of running_world "app_args Deploy" "''version:1''" "[prod]" 1 "[app_on 7 1]" st0]
    by (simp add: receive_def parse_env_def split_eq_def running_world_def mock_def app_args_def select_endpoint_def first_valid_def
          prod_def app_on_def st0_def)
  have 2: "filter is_mutation (trace (snd (cmd_deploy fresh_world (app_args Deploy) st0))) =
     [Deploy_stack ''app'' ''version:1'' 1 [(''DEBUG'', ''false'')]]"
    using deploy_chooses_update_or_create
            [of fresh_world "app_args Deploy" "''version:1''" "[prod]" 1 "[]" st0]
    by (simp add: receive_def parse_env_def split_eq_def fresh_world_def mock_def app_args_def select_endpoint_def first_valid_def
          prod_def st0_def)
  have 3: "filter is_mutation (trace (snd (cmd_deploy two_endpoint_world (app_args Deploy) st0))) =
     [Update_stack 8 ''version:1'' 1 [(''DEBUG'', ''false'')] True]"
    using deploy_chooses_update_or_create
            [of two_endpoint_world "app_args Deploy" "''version:1''" "[prod, edge]" 1
                "[app_on 7 2, app_on 8 1]" st0]
    by (simp add: receive_def parse_env_def split_eq_def two_endpoint_world_def mock_def app_args_def select_endpoint_def first_valid_def
          prod_def app_on_def st0_def)
  from 1 2 3 show ?thesis by simp
qed




section \<open>Deleting\<close>

lemma find_stack_named_find:
  "find_stack_named stacks n = find (\<lambda>s. stack_Name s = n) stacks"
  by (induction stacks) auto

text \<open>
  Claim C8, as amended. Once the endpoint is resolved and the stack list fetched,
  \<^verbatim>\<open>cmd_delete\<close> selects the first stack with the requested name, whatever its endpoint.
  When the deletion is confirmed (\<^verbatim>\<open>--yes\<close>, or \<^verbatim>\<open>y\<close> or \<^verbatim>\<open>Y\<close> typed at the prompt), it
  calls \<^verbatim>\<open>delete_stack\<close> for the identifier of that stack and the resolved endpoint;
  otherwise it deletes nothing. It returns 0 when the deletion succeeds and when another
  line is typed; at the end of the standard input the \<^verbatim>\<open>EOFError\<close> is not caught.
\<close>

theorem delete_selects_by_name:
  assumes "receive (endpoints_resp w) = Inr endpoints"
    and "select_endpoint endpoints (arg_endpoint a) = Inr eid"
    and "receive (stacks_resp w) = Inr stacks"
    and "find (\<lambda>s. stack_Name s = arg_stack_name a) stacks = Some s"
  shows "(confirm w a = Inr True \<longleftrightarrow>
            arg_yes a \<or> stdin_line w = Some ''y'' \<or> stdin_line w = Some ''Y'') \<and>
         trace (snd (cmd_delete w a st)) =
           trace st @ [Get_endpoints, List_stacks] @
             (if confirm w a = Inr True then [Delete_stack (stack_Id s) eid] else []) \<and>
         (confirm w a = Inr True \<and> receive (delete_resp w (stack_Id s) eid) = Inr u \<longrightarrow>
            fst (cmd_delete w a st) = Inr 0) \<and>
         (confirm w a = Inr False \<longrightarrow> fst (cmd_delete w a st) = Inr 0) \<and>
         (confirm w a = Inl EOFError \<longrightarrow>
            fst (cmd_delete w a st) = Inl EOFError \<and> exit_status (fst (cmd_delete w a st)) = 1)"
proof -
  have c: "confirm w a = Inr True \<longleftrightarrow>
            arg_yes a \<or> stdin_line w = Some ''y'' \<or> stdin_line w = Some ''Y''"
    by (auto simp: confirm_def split: option.splits)
  have f: "find_stack_named stacks (arg_stack_name a) = Some s"
    using assms(4) by (simp add: find_stack_named_find)
  have d: "cmd_delete w a st =
           (case confirm w a of
              Inl e \<Rightarrow> (Inl e, request w List_stacks (request w Get_endpoints st))
            | Inr yes \<Rightarrow>
                if yes then
                  (case delete_stack w (stack_Id s) eid (request w List_stacks (request w Get_endpoints st)) of
                     (Inl e, st3) \<Rightarrow> (Inl e, st3)
                   | (Inr ok, st3) \<Rightarrow> (Inr 0, st3))
                else (Inr 0, request w List_stacks (request w Get_endpoints st)))"
    using assms(1-3) f by (simp add: cmd_delete_def get_endpoint_id_ok list_stacks_ok)
  have t: "trace (snd (cmd_delete w a st)) =
           trace st @ [Get_endpoints, List_stacks] @
             (if confirm w a = Inr True then [Delete_stack (stack_Id s) eid] else [])"
    by (cases "confirm w a")
       (auto simp: d delete_stack_def request_def elapse_def called_def split: sum.splits)
  have r1: "fst (cmd_delete w a st) = Inr 0"
    if "confirm w a = Inr True" "receive (delete_resp w (stack_Id s) eid) = Inr u"
    using that by (simp add: d delete_stack_def)
  have r2: "fst (cmd_delete w a st) = Inr 0" if "confirm w a = Inr False"
    using that by (simp add: d)
  have r3: "fst (cmd_delete w a st) = Inl EOFError \<and> exit_status (fst (cmd_delete w a st)) = 1"
    if "confirm w a = Inl EOFError"
    using that by (simp add: d exit_status_def)
  from c t r1 r2 r3 show ?thesis by blast
qed

theorem delete_selects_by_name_witness:
  "stack_EndpointId (app_on 7 2) \<noteq> Some 1 \<and>
   trace (snd (cmd_delete two_endpoint_world ((app_args Delete)\<lparr>arg_yes := True\<rparr>) st0)) =
     [Get_endpoints, List_stacks, Delete_stack 7 1] \<and>
   fst (cmd_delete two_endpoint_world ((app_args Delete)\<lparr>arg_yes := True\<rparr>) st0) = Inr 0 \<and>
   trace (snd (cmd_delete two_endpoint_world (app_args Delete) st0)) = [Get_endpoints, List_stacks] \<and>
   fst (cmd_delete two_endpoint_world (app_args Delete) st0) = Inr 0 \<and>
   trace (snd (cmd_delete closed_stdin_world (app_args Delete) st0)) = [Get_endpoints, List_stacks] \<and>
   fst (cmd_delete closed_stdin_world (app_args Delete) st0) = Inl EOFError"
  using delete_selects_by_name [where w = two_endpoint_world and endpoints = "[prod, edge]"
          and a = "(app_args Delete)\<lparr>arg_yes := True\<rparr>" and eid = 1
          and stacks = "[app_on 7 2, app_on 8 1]" and s = "app_on 7 2" and u = "()" and st = st0]
        delete_selects_by_name [where w = two_endpoint_world and endpoints = "[prod, edge]"
          and a = "app_args Delete" and eid = 1
          and stacks = "[app_on 7 2, app_on 8 1]" and s = "app_on 7 2" and u = "()" and st = st0]
        delete_selects_by_name [where w = closed_stdin_world and endpoints = "[prod, edge]"
          and a = "app_args Delete" and eid = 1
          and stacks = "[app_on 7 2, app_on 8 1]" and s = "app_on 7 2" and u = "()" and st = st0]
  by (simp add: world_defs client_defs confirm_def)

text \<open>
  Claim C8 as stated fails when the deletion is not confirmed: without \<^verbatim>\<open>--yes\<close> and
  with \<^verbatim>\<open>n\<close> typed at the prompt, the stack is in the list and no deletion is issued.
\<close>

theorem delete_unconfirmed_counterexample:
  "find_stack_named [app_on 7 1] (arg_stack_name (app_args Delete)) = Some (app_on 7 1) \<and>
   \<not> arg_yes (app_args Delete) \<and> stdin_line running_world = Some ''n'' \<and>
   cmd_delete running_world (app_args Delete) st0 =
     (Inr 0, \<lparr>now = 0, trace = [Get_endpoints, List_stacks]\<rparr>)"
  by (simp add: cmd_delete_def get_endpoint_id_def get_endpoints_def list_stacks_def confirm_def
        world_defs client_defs)

end
